theory Spec2Isabelle
  imports Complex_Main "HOL-Library.AList"
begin

section \<open>Python values, exceptions and effects\<close>

text \<open>
  The program passes untyped Python data around: the dictionaries built by the OCR stage,
  whatever \<^verbatim>\<open>json.loads\<close> returns for the model's reply, and the result dictionary of
  \<^verbatim>\<open>analyze_current_screen\<close>. One datatype holds them all. A dictionary is an
  association list in insertion order, looked up with \<open>map_of\<close>; all keys in this
  program are strings. A float is represented by the rational it denotes (the only float
  arithmetic in the program is the division of an OCR confidence by \<^verbatim>\<open>100.0\<close>; the
  values \<^verbatim>\<open>nan\<close> and \<^verbatim>\<open>inf\<close> are left out). A string is a list of 8-bit characters,
  read as code points below 256.
\<close>

datatype pyval =
    PNone
  | PBool bool
  | PInt int
  | PFloat rat
  | PStr string
  | PList "pyval list"
  | PTuple "pyval list"
  | PDict "(string \<times> pyval) list"

datatype exn_class =
    JSONDecodeError | AttributeError | TypeError | KeyError | IndexError
  | ValueError | OverflowError | ExternalError

text \<open>An exception: its class and the text of \<^verbatim>\<open>str(e)\<close>.\<close>

datatype exn = Exn exn_class string

fun exn_class_of :: "exn \<Rightarrow> exn_class" where
  "exn_class_of (Exn c m) = c"

fun exn_str :: "exn \<Rightarrow> string" where
  "exn_str (Exn c m) = m"

text \<open>
  A computation that may raise returns \<open>exn + 'a\<close>, \<open>Inl\<close> being the raised exception.
  \<open>and_then\<close> sequences two statements inside one \<^verbatim>\<open>try\<close> block.
\<close>

definition and_then :: "exn + 'a \<Rightarrow> ('a \<Rightarrow> exn + 'b) \<Rightarrow> exn + 'b" where
  "and_then r f = (case r of Inl e \<Rightarrow> Inl e | Inr v \<Rightarrow> f v)"

datatype level = INFO | WARNING | ERROR

datatype stage =
    CaptureScreen | PreprocessImage | ExtractText | Imencode
  | AnalyzeScreenElements | InterpretScreenContext | GenerateContent

text \<open>
  What a call leaves behind besides its value, in program order: the records sent to
  \<^verbatim>\<open>logger\<close> and the pipeline stages that were entered.
\<close>

datatype effect = Log level string | Call stage

fun is_log :: "level \<Rightarrow> effect \<Rightarrow> bool" where
  "is_log l (Log l' m) = (l = l')"
| "is_log l (Call s) = False"

subsection \<open>Dictionaries, truth values, iteration\<close>

fun type_name :: "pyval \<Rightarrow> string" where
  "type_name PNone = ''NoneType''"
| "type_name (PBool b) = ''bool''"
| "type_name (PInt n) = ''int''"
| "type_name (PFloat q) = ''float''"
| "type_name (PStr s) = ''str''"
| "type_name (PList xs) = ''list''"
| "type_name (PTuple xs) = ''tuple''"
| "type_name (PDict kvs) = ''dict''"

definition no_attribute :: "pyval \<Rightarrow> string \<Rightarrow> exn" where
  "no_attribute v a =
     Exn AttributeError
       ([CHR 0x27] @ type_name v @ [CHR 0x27] @ '' object has no attribute '' @
        [CHR 0x27] @ a @ [CHR 0x27])"

definition not_iterable :: "pyval \<Rightarrow> exn" where
  "not_iterable v =
     Exn TypeError ([CHR 0x27] @ type_name v @ [CHR 0x27] @ '' object is not iterable'')"

text \<open>\<^verbatim>\<open>d.get(k, default)\<close>: only a dictionary has the method.\<close>

fun py_get :: "pyval \<Rightarrow> string \<Rightarrow> pyval \<Rightarrow> exn + pyval" where
  "py_get (PDict kvs) k dflt = Inr (case map_of kvs k of None \<Rightarrow> dflt | Some v \<Rightarrow> v)"
| "py_get v k dflt = Inl (no_attribute v ''get'')"

fun dict_keys :: "pyval \<Rightarrow> string list" where
  "dict_keys (PDict kvs) = map fst kvs"
| "dict_keys v = []"

fun dict_lookup :: "pyval \<Rightarrow> string \<Rightarrow> pyval option" where
  "dict_lookup (PDict kvs) k = map_of kvs k"
| "dict_lookup v k = None"

text \<open>The truth value Python gives a value in \<^verbatim>\<open>if v\<close>.\<close>

fun truthy :: "pyval \<Rightarrow> bool" where
  "truthy PNone = False"
| "truthy (PBool b) = b"
| "truthy (PInt n) = (n \<noteq> 0)"
| "truthy (PFloat q) = (q \<noteq> 0)"
| "truthy (PStr s) = (s \<noteq> [])"
| "truthy (PList xs) = (xs \<noteq> [])"
| "truthy (PTuple xs) = (xs \<noteq> [])"
| "truthy (PDict kvs) = (kvs \<noteq> [])"

text \<open>
  The items a \<^verbatim>\<open>for\<close> loop or \<^verbatim>\<open>tuple(...)\<close> draws from a value: the elements of a
  list or tuple, the characters of a string, the keys of a dictionary; anything else
  raises \<^verbatim>\<open>TypeError\<close>.
\<close>

fun py_iter :: "pyval \<Rightarrow> exn + pyval list" where
  "py_iter (PList xs) = Inr xs"
| "py_iter (PTuple xs) = Inr xs"
| "py_iter (PStr s) = Inr (map (\<lambda>c. PStr [c]) s)"
| "py_iter (PDict kvs) = Inr (map (\<lambda>kv. PStr (fst kv)) kvs)"
| "py_iter v = Inl (not_iterable v)"

definition py_index :: "'a list \<Rightarrow> nat \<Rightarrow> exn + 'a" where
  "py_index xs i =
     (if i < length xs then Inr (xs ! i) else Inl (Exn IndexError ''list index out of range''))"

subsection \<open>Strings\<close>

text \<open>
  \<^verbatim>\<open>str.strip()\<close> removes the characters for which \<^verbatim>\<open>str.isspace\<close> holds from both
  ends; below code point 256 these are 9 to 13, 28 to 32, 0x85 and 0xA0.
\<close>

definition is_space :: "char \<Rightarrow> bool" where
  "is_space c \<longleftrightarrow>
     c \<in> set [CHR 0x09, CHR 0x0A, CHR 0x0B, CHR 0x0C, CHR 0x0D, CHR 0x1C, CHR 0x1D,
              CHR 0x1E, CHR 0x1F, CHR 0x20, CHR 0x85, CHR 0xA0]"

definition strip :: "string \<Rightarrow> string" where
  "strip s = rev (dropWhile is_space (rev (dropWhile is_space s)))"

definition startswith :: "string \<Rightarrow> string \<Rightarrow> bool" where
  "startswith s p \<longleftrightarrow> take (length p) s = p"

definition endswith :: "string \<Rightarrow> string \<Rightarrow> bool" where
  "endswith s p \<longleftrightarrow> length p \<le> length s \<and> drop (length s - length p) s = p"

section \<open>The external collaborators\<close>

text \<open>
  The table \<^verbatim>\<open>pytesseract.image_to_data(..., output_type=Output.DICT)\<close> returns: one list
  per column. The numeric columns hold integers; a confidence cell that the engine's
  output did not give as a number is left a string.
\<close>

datatype cell = IntCell int | StrCell string

record ocr_data =
  col_text :: "string list"
  col_conf :: "cell list"
  col_left :: "int list"
  col_top :: "int list"
  col_width :: "int list"
  col_height :: "int list"

text \<open>
  The two prompts sent to the model. Their text is fixed except for the value
  interpolated into the second.
\<close>

datatype prompt = ElementsPrompt | ContextPrompt pyval

text \<open>
  Everything the program asks of its libraries and of the machine, each call with the
  outcome it can have. \<open>'img\<close> is the type of images. A model response is the outcome of
  reading its \<^verbatim>\<open>.text\<close> property, which can itself raise. \<open>open_image\<close> is
  \<^verbatim>\<open>base64.b64decode\<close> followed by \<^verbatim>\<open>Image.open\<close>, \<open>imencode_b64\<close> is \<^verbatim>\<open>cv2.imencode\<close>
  followed by the base64 encoding, \<open>make_model\<close> is what the constructor of
  \<^verbatim>\<open>LLMInterface\<close> asks of the model library.
\<close>

record 'img world =
  grab :: "(int \<times> int \<times> int \<times> int) option \<Rightarrow> exn + 'img"
  cvt_bgr :: "'img \<Rightarrow> exn + 'img"
  cvt_gray :: "'img \<Rightarrow> exn + 'img"
  gaussian_blur :: "'img \<Rightarrow> exn + 'img"
  adaptive_threshold :: "'img \<Rightarrow> exn + 'img"
  morphology_close :: "'img \<Rightarrow> exn + 'img"
  image_to_data :: "'img \<Rightarrow> exn + ocr_data"
  int_of_str :: "string \<Rightarrow> exn + int"
  imencode_b64 :: "'img \<Rightarrow> exn + string"
  open_image :: "string \<Rightarrow> exn + 'img"
  generate_content :: "prompt \<Rightarrow> 'img \<Rightarrow> exn + (exn + string)"
  json_loads :: "string \<Rightarrow> exn + pyval"
  time_time :: rat
  utcnow_timestamp :: rat
  utcnow_isoformat :: string
  make_model :: "pyval \<Rightarrow> exn option"

section \<open>OCRProcessor\<close>

text \<open>\<^verbatim>\<open>int(cell)\<close>: the identity on an integer, the library's parser on a string.\<close>

definition py_int :: "(string \<Rightarrow> exn + int) \<Rightarrow> cell \<Rightarrow> exn + int" where
  "py_int ios c = (case c of IntCell n \<Rightarrow> Inr n | StrCell s \<Rightarrow> ios s)"

text \<open>
  \<^verbatim>\<open>confidence / 100.0\<close>: the integer is converted to a float first, which raises
  \<^verbatim>\<open>OverflowError\<close> beyond the range of a double.
\<close>

definition div_100 :: "int \<Rightarrow> exn + rat" where
  "div_100 c =
     (if 2 ^ 1024 - 2 ^ 970 \<le> \<bar>c\<bar>
      then Inl (Exn OverflowError ''int too large to convert to float'')
      else Inr (of_int c / 100))"

text \<open>
  One pass of the loop body for index \<open>i\<close>: \<open>None\<close> when the row is skipped,
  the element dictionary when it is kept.
\<close>

definition ocr_element :: "(string \<Rightarrow> exn + int) \<Rightarrow> ocr_data \<Rightarrow> nat \<Rightarrow> exn + pyval option" where
  "ocr_element ios d i =
     and_then (py_index (col_text d) i) (\<lambda>t.
     let text = strip t in
     and_then (py_index (col_conf d) i) (\<lambda>c.
     and_then (py_int ios c) (\<lambda>confidence.
     if 30 < confidence \<and> text \<noteq> [] then
       and_then (py_index (col_left d) i) (\<lambda>x.
       and_then (py_index (col_top d) i) (\<lambda>y.
       and_then (py_index (col_width d) i) (\<lambda>w.
       and_then (py_index (col_height d) i) (\<lambda>h.
       and_then (div_100 confidence) (\<lambda>q.
       Inr (Some (PDict
         [(''text'', PStr text),
          (''bbox'', PTuple [PInt x, PInt y, PInt w, PInt h]),
          (''confidence'', PFloat q),
          (''coordinates'', PTuple [PInt (x + w div 2), PInt (y + h div 2)])])))))))
     else Inr None)))"

fun ocr_loop ::
  "(string \<Rightarrow> exn + int) \<Rightarrow> ocr_data \<Rightarrow> nat list \<Rightarrow> pyval list \<Rightarrow> exn + pyval list" where
  "ocr_loop ios d [] elements = Inr elements"
| "ocr_loop ios d (i # rest) elements =
     (case ocr_element ios d i of
        Inl e \<Rightarrow> Inl e
      | Inr None \<Rightarrow> ocr_loop ios d rest elements
      | Inr (Some element) \<Rightarrow> ocr_loop ios d rest (elements @ [element]))"

text \<open>The body of the \<^verbatim>\<open>try\<close> block of \<^verbatim>\<open>extract_text_with_boxes\<close>.\<close>

definition ocr_try :: "'img world \<Rightarrow> 'img \<Rightarrow> exn + pyval list" where
  "ocr_try w img =
     and_then (image_to_data w img) (\<lambda>data.
     ocr_loop (int_of_str w) data [0..<length (col_text data)] [])"

definition extract_text_with_boxes :: "'img world \<Rightarrow> 'img \<Rightarrow> pyval list \<times> effect list" where
  "extract_text_with_boxes w img =
     (case ocr_try w img of
        Inr elements \<Rightarrow> (elements, [Call ExtractText])
      | Inl e \<Rightarrow>
          ([], [Call ExtractText,
                Log WARNING (''OCR processing failed (Tesseract not available): '' @ exn_str e)]))"

section \<open>ScreenCapture\<close>

datatype ScreenRegion = FULL_SCREEN | WINDOW | CUSTOM

definition capture_screen ::
  "'img world \<Rightarrow> (int \<times> int \<times> int \<times> int) option \<Rightarrow> ScreenRegion \<Rightarrow> 'img option \<times> effect list" where
  "capture_screen w custom region =
     (case and_then
             (case region of
                FULL_SCREEN \<Rightarrow> grab w None
              | WINDOW \<Rightarrow> grab w None
              | CUSTOM \<Rightarrow> (case custom of Some bbox \<Rightarrow> grab w (Some bbox) | None \<Rightarrow> grab w None))
             (cvt_bgr w) of
        Inr screenshot_cv \<Rightarrow> (Some screenshot_cv, [Call CaptureScreen])
      | Inl e \<Rightarrow>
          (None, [Call CaptureScreen, Log ERROR (''Screen capture failed: '' @ exn_str e)]))"

text \<open>\<^verbatim>\<open>preprocess_image\<close> has no handler of its own: what a step raises reaches the caller.\<close>

definition preprocess_image :: "'img world \<Rightarrow> 'img \<Rightarrow> (exn + 'img) \<times> effect list" where
  "preprocess_image w img =
     (and_then (cvt_gray w img) (\<lambda>gray.
      and_then (gaussian_blur w gray) (\<lambda>blurred.
      and_then (adaptive_threshold w blurred) (\<lambda>thresh.
      morphology_close w thresh))),
      [Call PreprocessImage])"

section \<open>LLMInterface\<close>

record ActionCommand =
  action_type :: pyval
  target :: pyval
  coordinates :: pyval
  parameters :: pyval
  confidence :: pyval

text \<open>
  The cleaning of the response text, written out twice in the source with the same
  statements (in \<^verbatim>\<open>analyze_screen_elements\<close> and in \<^verbatim>\<open>interpret_screen_context\<close>).
\<close>

definition clean_response_text :: "string \<Rightarrow> string" where
  "clean_response_text t =
     (let response_text = strip t;
          response_text =
            (if startswith response_text ''```json'' then drop 7 response_text
             else response_text);
          response_text =
            (if endswith response_text ''```''
             then take (length response_text - 3) response_text
             else response_text)
      in strip response_text)"

definition py_tuple :: "pyval \<Rightarrow> exn + pyval" where
  "py_tuple v = and_then (py_iter v) (\<lambda>xs. Inr (PTuple xs))"

text \<open>The constructor call of the loop body; the keyword arguments are evaluated in order.\<close>

definition make_command :: "pyval \<Rightarrow> exn + ActionCommand" where
  "make_command action_data =
     and_then (py_get action_data ''action_type'' (PStr ''unknown'')) (\<lambda>a.
     and_then (py_get action_data ''target'' (PStr ''Unknown target'')) (\<lambda>t.
     and_then (py_get action_data ''coordinates'' PNone) (\<lambda>c.
     and_then
       (if truthy c
        then and_then (py_get action_data ''coordinates'' (PList [PInt 0, PInt 0])) py_tuple
        else Inr PNone) (\<lambda>coords.
     and_then (py_get action_data ''parameters'' (PDict [])) (\<lambda>p.
     and_then (py_get action_data ''confidence'' (PFloat (1 / 2))) (\<lambda>cf.
     Inr \<lparr>action_type = a, target = t, coordinates = coords, parameters = p,
          confidence = cf\<rparr>))))))"

fun commands_loop :: "pyval list \<Rightarrow> ActionCommand list \<Rightarrow> exn + ActionCommand list" where
  "commands_loop [] commands = Inr commands"
| "commands_loop (action_data # rest) commands =
     (case make_command action_data of
        Inl e \<Rightarrow> Inl e
      | Inr command \<Rightarrow> commands_loop rest (commands @ [command]))"

text \<open>
  The body of the inner \<^verbatim>\<open>try\<close> block of \<^verbatim>\<open>analyze_screen_elements\<close>: it returns the
  commands and the parsed reply that is stored as \<^verbatim>\<open>last_analysis\<close>.
\<close>

definition parse_commands ::
  "(string \<Rightarrow> exn + pyval) \<Rightarrow> exn + string \<Rightarrow> exn + (ActionCommand list \<times> pyval)" where
  "parse_commands loads response =
     and_then response (\<lambda>t.
     and_then (loads (clean_response_text t)) (\<lambda>analysis_data.
     and_then (py_get analysis_data ''suggested_actions'' (PList [])) (\<lambda>actions.
     and_then (py_iter actions) (\<lambda>items.
     and_then (commands_loop items []) (\<lambda>commands.
     Inr (commands, analysis_data))))))"

text \<open>\<^verbatim>\<open>_get_fallback_commands\<close>.\<close>

definition get_fallback_commands :: "ActionCommand list" where
  "get_fallback_commands =
     [\<lparr>action_type = PStr ''click'', target = PStr ''Primary action button'',
       coordinates = PTuple [PInt 400, PInt 300],
       parameters = PDict [(''button_text'', PStr ''Action'')],
       confidence = PFloat (75 / 100)\<rparr>,
      \<lparr>action_type = PStr ''type'', target = PStr ''Input field'',
       coordinates = PTuple [PInt 300, PInt 200],
       parameters = PDict [(''text'', PStr ''input''), (''field_type'', PStr ''text'')],
       confidence = PFloat (70 / 100)\<rparr>,
      \<lparr>action_type = PStr ''scroll'', target = PStr ''Page content'',
       coordinates = PNone,
       parameters = PDict [(''direction'', PStr ''down''), (''amount'', PInt 3)],
       confidence = PFloat (65 / 100)\<rparr>]"

text \<open>
  What the two handlers of a model call log. An exception of the inner block that is a
  \<^verbatim>\<open>JSONDecodeError\<close> is logged as two warnings, the second of which reads
  \<^verbatim>\<open>response.text\<close> again; any other exception, and one raised by that second read, goes
  to the outer handler, which logs an error.
\<close>

definition parse_failure_log :: "string \<Rightarrow> string \<Rightarrow> exn + string \<Rightarrow> exn \<Rightarrow> effect list" where
  "parse_failure_log parse_msg outer_msg response e =
     (if exn_class_of e = JSONDecodeError then
        (case response of
           Inr t \<Rightarrow>
             [Log WARNING (parse_msg @ exn_str e),
              Log WARNING (''Response text: '' @ take 200 t @ ''...'')]
         | Inl e' \<Rightarrow>
             [Log WARNING (parse_msg @ exn_str e), Log ERROR (outer_msg @ exn_str e')])
      else [Log ERROR (outer_msg @ exn_str e)])"

definition analyze_screen_elements ::
  "'img world \<Rightarrow> pyval option \<Rightarrow> pyval list \<Rightarrow> string \<Rightarrow>
   ActionCommand list \<times> pyval option \<times> effect list" where
  "analyze_screen_elements w last_analysis elements screenshot_b64 =
     (case open_image w screenshot_b64 of
        Inl e \<Rightarrow>
          (get_fallback_commands, last_analysis,
           [Call AnalyzeScreenElements, Log ERROR (''Gemini analysis failed: '' @ exn_str e)])
      | Inr pil \<Rightarrow>
          (case generate_content w ElementsPrompt pil of
             Inl e \<Rightarrow>
               (get_fallback_commands, last_analysis,
                [Call AnalyzeScreenElements, Call GenerateContent,
                 Log ERROR (''Gemini analysis failed: '' @ exn_str e)])
           | Inr response \<Rightarrow>
               (case parse_commands (json_loads w) response of
                  Inr (commands, analysis_data) \<Rightarrow>
                    (commands, Some analysis_data,
                     [Call AnalyzeScreenElements, Call GenerateContent])
                | Inl e \<Rightarrow>
                    (get_fallback_commands, last_analysis,
                     [Call AnalyzeScreenElements, Call GenerateContent] @
                     parse_failure_log ''Failed to parse Gemini response as JSON: ''
                       ''Gemini analysis failed: '' response e))))"

text \<open>\<^verbatim>\<open>_get_fallback_interpretation\<close>.\<close>

definition get_fallback_interpretation :: pyval where
  "get_fallback_interpretation =
     PDict
       [(''screen_type'', PStr ''unknown''),
        (''primary_elements'', PList [PStr ''text_elements'', PStr ''interactive_elements'']),
        (''suggested_actions'', PList [PStr ''click_element'', PStr ''type_text'']),
        (''context'', PStr ''Screen analysis completed with basic OCR detection''),
        (''confidence'', PFloat (60 / 100))]"

definition interpret_screen_context ::
  "'img world \<Rightarrow> string \<Rightarrow> pyval \<Rightarrow> pyval \<times> effect list" where
  "interpret_screen_context w screenshot_b64 user_intent =
     (case open_image w screenshot_b64 of
        Inl e \<Rightarrow>
          (get_fallback_interpretation,
           [Call InterpretScreenContext,
            Log ERROR (''Gemini screen interpretation failed: '' @ exn_str e)])
      | Inr pil \<Rightarrow>
          (case generate_content w
                  (ContextPrompt
                     (if truthy user_intent then user_intent
                      else PStr ''General screen analysis'')) pil of
             Inl e \<Rightarrow>
               (get_fallback_interpretation,
                [Call InterpretScreenContext, Call GenerateContent,
                 Log ERROR (''Gemini screen interpretation failed: '' @ exn_str e)])
           | Inr response \<Rightarrow>
               (case and_then response (\<lambda>t. json_loads w (clean_response_text t)) of
                  Inr interpretation \<Rightarrow>
                    (interpretation, [Call InterpretScreenContext, Call GenerateContent])
                | Inl e \<Rightarrow>
                    (get_fallback_interpretation,
                     [Call InterpretScreenContext, Call GenerateContent] @
                     parse_failure_log ''Failed to parse Gemini context response as JSON: ''
                       ''Gemini screen interpretation failed: '' response e))))"

definition get_detailed_analysis :: "pyval option \<Rightarrow> pyval" where
  "get_detailed_analysis last_analysis = (case last_analysis of None \<Rightarrow> PDict [] | Some a \<Rightarrow> a)"

section \<open>AIScreenReader\<close>

text \<open>
  The object's fields: the capture region of its \<^verbatim>\<open>ScreenCapture\<close>, the
  \<^verbatim>\<open>last_analysis\<close> attribute of its \<^verbatim>\<open>LLMInterface\<close> (absent until the first
  successful parse), \<^verbatim>\<open>is_running\<close> and \<^verbatim>\<open>capture_thread\<close>. \<open>threads\<close> is every
  thread the object has started, oldest first; \<open>capture_thread\<close> is an index into it.
  A thread runs \<^verbatim>\<open>_monitoring_loop\<close> and is at the loop head, inside an iteration, or has
  left the function; \<open>cycles\<close> counts the iterations it has begun.
\<close>

datatype loop_pc = AtHead | InCycle | Exited

record loop_thread =
  interval :: pyval
  pc :: loop_pc
  cycles :: nat

record reader =
  custom_region :: "(int \<times> int \<times> int \<times> int) option"
  last_analysis :: "pyval option"
  is_running :: bool
  capture_thread :: "nat option"
  threads :: "loop_thread list"

definition new_reader :: reader where
  "new_reader =
     \<lparr>custom_region = None, last_analysis = None, is_running = False,
      capture_thread = None, threads = []\<rparr>"

fun str_nat :: "nat \<Rightarrow> string" where
  "str_nat n =
     (if n < 10 then [''0123456789'' ! n]
      else str_nat (n div 10) @ [''0123456789'' ! (n mod 10)])"

declare str_nat.simps [simp del]

definition str_int :: "int \<Rightarrow> string" where
  "str_int i = (if i < 0 then ''-'' @ str_nat (nat (- i)) else str_nat (nat i))"

text \<open>\<^verbatim>\<open>int(x)\<close> on a float rounds towards zero.\<close>

definition int_of_float :: "rat \<Rightarrow> int" where
  "int_of_float q = (if 0 \<le> q then \<lfloor>q\<rfloor> else \<lceil>q\<rceil>)"

text \<open>
  \<^verbatim>\<open>time.sleep(interval)\<close> converts the interval to a signed 64-bit count of
  nanoseconds, which raises \<^verbatim>\<open>OverflowError\<close> when it does not fit; it then raises
  \<^verbatim>\<open>ValueError\<close> on a negative number. A value that is no number raises
  \<^verbatim>\<open>TypeError\<close>.
\<close>

definition sleep_overflows :: "rat \<Rightarrow> bool" where
  "sleep_overflows q \<longleftrightarrow> 2 ^ 63 \<le> q * 10 ^ 9 \<or> q * 10 ^ 9 < - (2 ^ 63)"

definition sleep_number :: "rat \<Rightarrow> exn option" where
  "sleep_number q =
     (if sleep_overflows q
      then Some (Exn OverflowError ''timestamp too large to convert to C _PyTime_t'')
      else if q < 0 then Some (Exn ValueError ''sleep length must be non-negative'')
      else None)"

fun py_sleep :: "pyval \<Rightarrow> exn option" where
  "py_sleep (PInt n) = sleep_number (of_int n)"
| "py_sleep (PFloat q) = sleep_number q"
| "py_sleep (PBool b) = None"
| "py_sleep v =
     Some (Exn TypeError
       ([CHR 0x27] @ type_name v @ [CHR 0x27] @ '' object cannot be interpreted as an integer''))"

definition command_dict :: "ActionCommand \<Rightarrow> pyval" where
  "command_dict cmd =
     PDict [(''action_type'', action_type cmd), (''target'', target cmd),
            (''coordinates'', coordinates cmd), (''parameters'', parameters cmd),
            (''confidence'', confidence cmd)]"

definition summary_of :: "pyval \<Rightarrow> nat \<Rightarrow> nat \<Rightarrow> exn + pyval" where
  "summary_of interpretation n_elements n_commands =
     and_then (py_get interpretation ''screen_type'' (PStr ''unknown'')) (\<lambda>st.
     and_then (py_get interpretation ''application_name'' (PStr ''Unknown'')) (\<lambda>app.
     and_then (py_get interpretation ''current_context'' (PStr ''Screen analysis'')) (\<lambda>ctx.
     and_then (py_get interpretation ''confidence'' (PFloat (1 / 2))) (\<lambda>cf.
     Inr (PDict
       [(''screen_type'', st), (''application'', app), (''context'', ctx),
        (''elements_found'', PInt (int n_elements)),
        (''commands_generated'', PInt (int n_commands)),
        (''confidence'', cf)])))))"

text \<open>The handler of \<^verbatim>\<open>analyze_current_screen\<close>.\<close>

definition analysis_failed :: "exn \<Rightarrow> reader \<Rightarrow> effect list \<Rightarrow> pyval \<times> reader \<times> effect list" where
  "analysis_failed e rd fx =
     (PDict [(''error'', PStr (exn_str e))], rd,
      fx @ [Log ERROR (''Screen analysis failed: '' @ exn_str e)])"

definition analyze_current_screen :: "'img world \<Rightarrow> reader \<Rightarrow> pyval \<times> reader \<times> effect list" where
  "analyze_current_screen w rd =
     (case capture_screen w (custom_region rd) FULL_SCREEN of
        (None, fx1) \<Rightarrow> (PDict [(''error'', PStr ''Failed to capture screen'')], rd, fx1)
      | (Some screenshot, fx1) \<Rightarrow>
          (case preprocess_image w screenshot of
             (Inl e, fx2) \<Rightarrow> analysis_failed e rd (fx1 @ fx2)
           | (Inr processed_image, fx2) \<Rightarrow>
               (case extract_text_with_boxes w processed_image of
                  (elements, fx3) \<Rightarrow>
                    (case imencode_b64 w screenshot of
                       Inl e \<Rightarrow> analysis_failed e rd (fx1 @ fx2 @ fx3 @ [Call Imencode])
                     | Inr screenshot_b64 \<Rightarrow>
                         (case analyze_screen_elements w (last_analysis rd) elements
                                 screenshot_b64 of
                            (commands, stored, fx4) \<Rightarrow>
                              (case interpret_screen_context w screenshot_b64 (PStr []) of
                                 (interpretation, fx5) \<Rightarrow>
                                   (let rd' = rd\<lparr>last_analysis := stored\<rparr>;
                                        fx = fx1 @ fx2 @ fx3 @ [Call Imencode] @ fx4 @ fx5
                                    in case summary_of interpretation (length elements)
                                              (length commands) of
                                         Inl e \<Rightarrow> analysis_failed e rd' fx
                                       | Inr summary \<Rightarrow>
                                           (PDict
                                              [(''timestamp'', PFloat (time_time w)),
                                               (''elements'', PList elements),
                                               (''commands'', PList (map command_dict commands)),
                                               (''interpretation'', interpretation),
                                               (''detailed_analysis'',
                                                  get_detailed_analysis stored),
                                               (''screenshot_b64'', PStr screenshot_b64),
                                               (''summary'', summary)],
                                            rd', fx))))))))"

subsection \<open>The monitoring loop\<close>

text \<open>
  The \<^verbatim>\<open>try\<close> block of one iteration of \<^verbatim>\<open>_monitoring_loop\<close>: the exception it ends
  with, if any.
\<close>

definition monitoring_body ::
  "'img world \<Rightarrow> reader \<Rightarrow> pyval \<Rightarrow> exn option \<times> reader \<times> effect list" where
  "monitoring_body w rd ival =
     (case capture_screen w (custom_region rd) FULL_SCREEN of
        (None, fx1) \<Rightarrow> (py_sleep ival, rd, fx1)
      | (Some screenshot, fx1) \<Rightarrow>
          (case preprocess_image w screenshot of
             (Inl e, fx2) \<Rightarrow> (Some e, rd, fx1 @ fx2)
           | (Inr processed_image, fx2) \<Rightarrow>
               (case extract_text_with_boxes w processed_image of
                  (elements, fx3) \<Rightarrow>
                    (case imencode_b64 w screenshot of
                       Inl e \<Rightarrow> (Some e, rd, fx1 @ fx2 @ fx3 @ [Call Imencode])
                     | Inr screenshot_b64 \<Rightarrow>
                         (case analyze_screen_elements w (last_analysis rd) elements
                                 screenshot_b64 of
                            (commands, stored, fx4) \<Rightarrow>
                              (py_sleep ival, rd\<lparr>last_analysis := stored\<rparr>,
                               fx1 @ fx2 @ fx3 @ [Call Imencode] @ fx4 @
                               [Log INFO (''Detected '' @ str_nat (length elements) @
                                  '' elements, generated '' @ str_nat (length commands) @
                                  '' commands'')]))))))"

text \<open>
  One iteration with its handler, which logs and sleeps; the flag returned says whether
  control comes back to the loop head (an exception raised by the handler's own
  \<^verbatim>\<open>time.sleep\<close> ends the thread).
\<close>

definition monitoring_iteration ::
  "'img world \<Rightarrow> reader \<Rightarrow> pyval \<Rightarrow> bool \<times> reader \<times> effect list" where
  "monitoring_iteration w rd ival =
     (case monitoring_body w rd ival of
        (None, rd', fx) \<Rightarrow> (True, rd', fx)
      | (Some e, rd', fx) \<Rightarrow>
          (py_sleep ival = None, rd',
           fx @ [Log ERROR (''Monitoring loop error: '' @ exn_str e)]))"

definition thread_exited :: "nat \<Rightarrow> reader \<Rightarrow> bool" where
  "thread_exited t rd \<longleftrightarrow> t < length (threads rd) \<and> pc (threads rd ! t) = Exited"


text \<open>
  One step of thread \<open>t\<close>: at the loop head it tests \<^verbatim>\<open>self.is_running\<close> and either
  enters an iteration or leaves the loop; inside an iteration it runs it to its end.
\<close>

definition loop_step :: "'img world \<Rightarrow> nat \<Rightarrow> reader \<Rightarrow> reader \<times> effect list" where
  "loop_step w t rd =
     (if t < length (threads rd) then
        (let th = threads rd ! t in
         case pc th of
           Exited \<Rightarrow> (rd, [])
         | AtHead \<Rightarrow>
             (if is_running rd
              then (rd\<lparr>threads := (threads rd)[t := th\<lparr>pc := InCycle, cycles := Suc (cycles th)\<rparr>]\<rparr>, [])
              else (rd\<lparr>threads := (threads rd)[t := th\<lparr>pc := Exited\<rparr>]\<rparr>, []))
         | InCycle \<Rightarrow>
             (case monitoring_iteration w rd (interval th) of
                (continue, rd', fx) \<Rightarrow>
                  (rd'\<lparr>threads := (threads rd')[t := th\<lparr>pc := (if continue then AtHead else Exited)\<rparr>]\<rparr>,
                   fx)))
      else (rd, []))"

definition start_monitoring :: "reader \<Rightarrow> pyval \<Rightarrow> reader \<times> effect list" where
  "start_monitoring rd ival =
     (rd\<lparr>is_running := True,
         capture_thread := Some (length (threads rd)),
         threads := threads rd @ [\<lparr>interval = ival, pc = AtHead, cycles = 0\<rparr>]\<rparr>,
      [Log INFO ''Screen monitoring started''])"

text \<open>
  \<^verbatim>\<open>Thread.join()\<close>: the caller waits until thread \<open>t\<close> has left its function. The
  schedule lists the threads that take a step while it waits; \<open>None\<close> is a caller still
  waiting when the schedule is used up.
\<close>

fun join_thread ::
  "'img world \<Rightarrow> nat \<Rightarrow> nat list \<Rightarrow> reader \<Rightarrow> (reader \<times> effect list) option" where
  "join_thread w t [] rd = (if thread_exited t rd then Some (rd, []) else None)"
| "join_thread w t (u # sched) rd =
     (if thread_exited t rd then Some (rd, [])
      else (case join_thread w t sched (fst (loop_step w u rd)) of
              None \<Rightarrow> None
            | Some (rd', fx) \<Rightarrow> Some (rd', snd (loop_step w u rd) @ fx)))"

definition stop_monitoring ::
  "'img world \<Rightarrow> nat list \<Rightarrow> reader \<Rightarrow> (reader \<times> effect list) option" where
  "stop_monitoring w sched rd =
     (let rd1 = rd\<lparr>is_running := False\<rparr> in
      case capture_thread rd1 of
        None \<Rightarrow> Some (rd1, [Log INFO ''Screen monitoring stopped''])
      | Some t \<Rightarrow>
          (case join_thread w t sched rd1 of
             None \<Rightarrow> None
           | Some (rd2, fx) \<Rightarrow> Some (rd2, fx @ [Log INFO ''Screen monitoring stopped''])))"

text \<open>
  What can happen to one reader: a call of \<^verbatim>\<open>start_monitoring\<close>, a call of
  \<^verbatim>\<open>stop_monitoring\<close> (with the steps taken while it waits), a step of one of the loop
  threads. A run is a list of these; it is \<open>None\<close> when a \<^verbatim>\<open>stop_monitoring\<close> in it
  never returns.
\<close>

datatype action = Start pyval | Stop "nat list" | Step nat



section \<open>The HTTP routes\<close>

text \<open>
  The module's global \<^verbatim>\<open>screen_reader\<close> is \<open>None\<close> or a reader. A route gets the
  outcome of \<^verbatim>\<open>request.get_json()\<close> and returns the JSON body with the status code.
\<close>

type_synonym response = "pyval \<times> nat"

definition not_initialized :: response where
  "not_initialized = (PDict [(''error'', PStr ''Screen reader not initialized'')], 400)"

definition server_error :: "string \<Rightarrow> exn \<Rightarrow> effect list \<Rightarrow> response \<times> effect list" where
  "server_error msg e fx =
     ((PDict [(''error'', PStr (exn_str e))], 500), fx @ [Log ERROR (msg @ exn_str e)])"

fun dict_set :: "pyval \<Rightarrow> string \<Rightarrow> pyval \<Rightarrow> pyval" where
  "dict_set (PDict kvs) k v = PDict (AList.update k v kvs)"
| "dict_set d k v = d"

definition health_check :: "'img world \<Rightarrow> response" where
  "health_check w =
     (PDict [(''status'', PStr ''healthy''), (''timestamp'', PStr (utcnow_isoformat w)),
             (''version'', PStr ''1.0.0'')], 200)"

definition initialize_screen_reader ::
  "'img world \<Rightarrow> exn + pyval \<Rightarrow> reader option \<Rightarrow> response \<times> reader option \<times> effect list" where
  "initialize_screen_reader w req sr =
     (case and_then req (\<lambda>data. py_get data ''api_key'' PNone) of
        Inl e \<Rightarrow>
          (fst (server_error ''Initialization failed: '' e []), sr,
           snd (server_error ''Initialization failed: '' e []))
      | Inr api_key \<Rightarrow>
          if \<not> truthy api_key
          then ((PDict [(''error'', PStr ''API key is required'')], 400), sr, [])
          else (case make_model w api_key of
                  Some e \<Rightarrow>
                    (fst (server_error ''Initialization failed: '' e []), sr,
                     snd (server_error ''Initialization failed: '' e []))
                | None \<Rightarrow>
                    ((PDict [(''status'', PStr ''initialized''),
                             (''message'', PStr ''AI Screen Reader initialized successfully'')],
                      200),
                     Some new_reader, [])))"

definition analyze_screen_detailed ::
  "'img world \<Rightarrow> reader option \<Rightarrow> response \<times> reader option \<times> effect list" where
  "analyze_screen_detailed w sr =
     (case sr of
        None \<Rightarrow> (not_initialized, None, [])
      | Some rd \<Rightarrow>
          (case analyze_current_screen w rd of
             (result, rd', fx) \<Rightarrow>
               if ''error'' \<in> set (dict_keys result) then ((result, 500), Some rd', fx)
               else ((dict_set result ''analysis_id''
                        (PStr (''analysis_'' @ str_int (int_of_float (utcnow_timestamp w)))),
                      200),
                     Some rd', fx)))"

definition explain_screen ::
  "'img world \<Rightarrow> exn + pyval \<Rightarrow> reader option \<Rightarrow> response \<times> reader option \<times> effect list" where
  "explain_screen w req sr =
     (case sr of
        None \<Rightarrow> (not_initialized, None, [])
      | Some rd \<Rightarrow>
          (case and_then req (\<lambda>data. py_get data ''user_intent'' (PStr [])) of
             Inl e \<Rightarrow>
               (fst (server_error ''Screen explanation failed: '' e []), sr,
                snd (server_error ''Screen explanation failed: '' e []))
           | Inr user_intent \<Rightarrow>
               (case capture_screen w (custom_region rd) FULL_SCREEN of
                  (None, fx1) \<Rightarrow>
                    ((PDict [(''error'', PStr ''Failed to capture screen'')], 500), sr, fx1)
                | (Some screenshot, fx1) \<Rightarrow>
                    (case imencode_b64 w screenshot of
                       Inl e \<Rightarrow>
                         (fst (server_error ''Screen explanation failed: '' e
                                 (fx1 @ [Call Imencode])), sr,
                          snd (server_error ''Screen explanation failed: '' e
                                 (fx1 @ [Call Imencode])))
                     | Inr screenshot_b64 \<Rightarrow>
                         (case interpret_screen_context w screenshot_b64 user_intent of
                            (explanation, fx2) \<Rightarrow>
                              ((PDict [(''timestamp'', PStr (utcnow_isoformat w)),
                                       (''explanation'', explanation),
                                       (''screenshot_b64'', PStr screenshot_b64)], 200),
                               sr, fx1 @ [Call Imencode] @ fx2))))))"

text \<open>The routes \<^verbatim>\<open>start_monitoring\<close> and \<^verbatim>\<open>stop_monitoring\<close> of the application module.\<close>

definition start_monitoring_route ::
  "exn + pyval \<Rightarrow> reader option \<Rightarrow> response \<times> reader option \<times> effect list" where
  "start_monitoring_route req sr =
     (case sr of
        None \<Rightarrow> (not_initialized, None, [])
      | Some rd \<Rightarrow>
          (case and_then req (\<lambda>data. py_get data ''interval'' (PFloat 2)) of
             Inl e \<Rightarrow>
               (fst (server_error ''Failed to start monitoring: '' e []), sr,
                snd (server_error ''Failed to start monitoring: '' e []))
           | Inr ival \<Rightarrow>
               ((PDict [(''status'', PStr ''monitoring_started''), (''interval'', ival),
                        (''message'', PStr ''Screen monitoring started successfully'')], 200),
                Some (fst (start_monitoring rd ival)), snd (start_monitoring rd ival))))"

definition stop_monitoring_route ::
  "'img world \<Rightarrow> nat list \<Rightarrow> reader option \<Rightarrow>
   (response \<times> reader option \<times> effect list) option" where
  "stop_monitoring_route w sched sr =
     (case sr of
        None \<Rightarrow> Some (not_initialized, None, [])
      | Some rd \<Rightarrow>
          (case stop_monitoring w sched rd of
             None \<Rightarrow> None
           | Some (rd', fx) \<Rightarrow>
               Some ((PDict [(''status'', PStr ''monitoring_stopped''),
                             (''message'', PStr ''Screen monitoring stopped successfully'')],
                      200),
                     Some rd', fx)))"

definition get_dashboard_stats :: response where
  "get_dashboard_stats =
     (PDict [(''total_analyses'', PInt 0), (''total_commands'', PInt 0),
             (''executed_commands'', PInt 0), (''recent_analyses'', PInt 0),
             (''success_rate'', PInt 0)], 200)"

datatype endpoint =
    Health | Initialize | AnalyzeDetailed | Explain | MonitorStart | MonitorStop
  | DashboardStats

text \<open>
  The dispatch of a request to its route. The result is \<open>None\<close> when the route does not
  return (a \<^verbatim>\<open>stop_monitoring\<close> whose join never ends).
\<close>

fun handle ::
  "'img world \<Rightarrow> endpoint \<Rightarrow> exn + pyval \<Rightarrow> nat list \<Rightarrow> reader option \<Rightarrow>
   (response \<times> reader option \<times> effect list) option" where
  "handle w Health req sched sr = Some (health_check w, sr, [])"
| "handle w Initialize req sched sr = Some (initialize_screen_reader w req sr)"
| "handle w AnalyzeDetailed req sched sr = Some (analyze_screen_detailed w sr)"
| "handle w Explain req sched sr = Some (explain_screen w req sr)"
| "handle w MonitorStart req sched sr = Some (start_monitoring_route req sr)"
| "handle w MonitorStop req sched sr = stop_monitoring_route w sched sr"
| "handle w DashboardStats req sched sr = Some (get_dashboard_stats, sr, [])"

text \<open>The routes that need the reader.\<close>

definition analysis_endpoints :: "endpoint list" where
  "analysis_endpoints = [AnalyzeDetailed, Explain, MonitorStart, MonitorStop]"

section \<open>The command-line scripts\<close>

text \<open>
  The test \<^verbatim>\<open>if result.get('success', True)\<close> of \<^verbatim>\<open>main\<close> in
  \<^verbatim>\<open>auto_screen_analysis.py\<close> and \<^verbatim>\<open>screen_analysis_desktop.py\<close>: whether the
  success branch is taken.
\<close>

definition cli_takes_success_branch :: "pyval \<Rightarrow> exn + bool" where
  "cli_takes_success_branch result =
     and_then (py_get result ''success'' (PBool True)) (\<lambda>v. Inr (truthy v))"

section \<open>Specification predicates and example inputs\<close>

text \<open>
  What the text detector promises of a fragment it returns: its text is trimmed and not
  empty, and its confidence is above 30 on the engine's scale, so not below 0.3 on the
  unit scale.
\<close>

definition fragment_ok :: "pyval \<Rightarrow> bool" where
  "fragment_ok el =
     (case dict_lookup el ''text'' of
        Some (PStr t) \<Rightarrow>
          t \<noteq> [] \<and> strip t = t \<and>
          (case dict_lookup el ''confidence'' of
             Some (PFloat q) \<Rightarrow> 30 < q * 100 \<and> 3 / 10 \<le> q
           | _ \<Rightarrow> False)
      | _ \<Rightarrow> False)"

text \<open>
  A transport or API failure of the model call behind \<^verbatim>\<open>analyze_screen_elements\<close>: the
  image cannot be rebuilt from the base64 text, the request raises, or reading the text
  of the response raises; \<open>e\<close> is the exception.
\<close>

definition transport_failure :: "'img world \<Rightarrow> string \<Rightarrow> exn \<Rightarrow> bool" where
  "transport_failure w b64 e =
     (case open_image w b64 of
        Inl e' \<Rightarrow> e' = e
      | Inr pil \<Rightarrow>
          (case generate_content w ElementsPrompt pil of
             Inl e' \<Rightarrow> e' = e
           | Inr (Inl e') \<Rightarrow> e' = e \<and> exn_class_of e \<noteq> JSONDecodeError
           | Inr (Inr t) \<Rightarrow> False))"

text \<open>
  The cases in which \<^verbatim>\<open>interpret_screen_context\<close> takes one of its two handlers: the
  image cannot be rebuilt, the request raises, or reading and parsing the reply raises.
\<close>

definition interpretation_fails :: "'img world \<Rightarrow> string \<Rightarrow> pyval \<Rightarrow> bool" where
  "interpretation_fails w b64 user_intent =
     (case open_image w b64 of
        Inl e \<Rightarrow> True
      | Inr pil \<Rightarrow>
          (case generate_content w
                  (ContextPrompt
                     (if truthy user_intent then user_intent
                      else PStr ''General screen analysis'')) pil of
             Inl e \<Rightarrow> True
           | Inr response \<Rightarrow>
               (case and_then response (\<lambda>t. json_loads w (clean_response_text t)) of
                  Inl e \<Rightarrow> True
                | Inr interpretation \<Rightarrow> False)))"

text \<open>
  A reply that matches the schema of the prompt, as far as the commands go: an object
  whose \<^verbatim>\<open>suggested_actions\<close> is an array of objects, the \<^verbatim>\<open>coordinates\<close> of each, when
  present and not falsy, an array. \<open>schema_actions\<close> returns that array.
\<close>

definition schema_action :: "pyval \<Rightarrow> bool" where
  "schema_action a =
     (case a of
        PDict kvs \<Rightarrow>
          (case map_of kvs ''coordinates'' of
             None \<Rightarrow> True
           | Some c \<Rightarrow> (if truthy c then (case c of PList xs \<Rightarrow> True | _ \<Rightarrow> False) else True))
      | _ \<Rightarrow> False)"

definition schema_actions :: "pyval \<Rightarrow> pyval list option" where
  "schema_actions data =
     (case dict_lookup data ''suggested_actions'' of
        Some (PList actions) \<Rightarrow> (if list_all schema_action actions then Some actions else None)
      | _ \<Rightarrow> None)"

text \<open>
  The command the specification assigns to one action object: each field is the
  object's entry of that name, or its default when the entry is missing; the coordinates
  are absent when the entry is missing or falsy, and the pair of the array otherwise.
\<close>

definition spec_field :: "pyval \<Rightarrow> string \<Rightarrow> pyval \<Rightarrow> pyval" where
  "spec_field a k dflt = (case dict_lookup a k of None \<Rightarrow> dflt | Some v \<Rightarrow> v)"

definition spec_command :: "pyval \<Rightarrow> ActionCommand" where
  "spec_command a =
     \<lparr>action_type = spec_field a ''action_type'' (PStr ''unknown''),
      target = spec_field a ''target'' (PStr ''Unknown target''),
      coordinates =
        (case dict_lookup a ''coordinates'' of
           None \<Rightarrow> PNone
         | Some c \<Rightarrow> (if truthy c then (case c of PList xs \<Rightarrow> PTuple xs | _ \<Rightarrow> PNone) else PNone)),
      parameters = spec_field a ''parameters'' (PDict []),
      confidence = spec_field a ''confidence'' (PFloat (1 / 2))\<rparr>"

text \<open>
  A small world for running the definitions: an OCR table of three rows, a model that
  answers every prompt with one fenced reply, and a parser that knows that reply's JSON.
\<close>

definition example_data :: ocr_data where
  "example_data =
     \<lparr>col_text = [''  OK '', ''   '', ''faint''],
      col_conf = [IntCell 95, IntCell 99, IntCell 12],
      col_left = [10, 0, 4], col_top = [20, 0, 4],
      col_width = [31, 0, 4], col_height = [9, 0, 4]\<rparr>"

definition example_element :: pyval where
  "example_element =
     PDict [(''text'', PStr ''OK''),
            (''bbox'', PTuple [PInt 10, PInt 20, PInt 31, PInt 9]),
            (''confidence'', PFloat (19 / 20)),
            (''coordinates'', PTuple [PInt 25, PInt 24])]"

definition example_body :: string where
  "example_body =
     ''{\"suggested_actions\": [{\"action_type\": \"click\", \"coordinates\": [5, 7]}, {}]}''"

definition example_text :: string where
  "example_text = ''```json\<newline>'' @ example_body @ ''\<newline>```''"

definition example_json :: pyval where
  "example_json =
     PDict [(''suggested_actions'',
             PList [PDict [(''action_type'', PStr ''click''),
                           (''coordinates'', PList [PInt 5, PInt 7])],
                    PDict []])]"

definition example_loads :: "string \<Rightarrow> exn + pyval" where
  "example_loads s =
     (if s = example_body then Inr example_json
      else Inl (Exn JSONDecodeError ''Expecting value: line 1 column 1 (char 0)''))"

definition example_world :: "nat world" where
  "example_world =
     \<lparr>grab = (\<lambda>bbox. Inr 0), cvt_bgr = Inr, cvt_gray = Inr, gaussian_blur = Inr,
      adaptive_threshold = Inr, morphology_close = Inr,
      image_to_data = (\<lambda>img. Inr example_data),
      int_of_str = (\<lambda>s. Inl (Exn ValueError ''invalid literal for int() with base 10'')),
      imencode_b64 = (\<lambda>img. Inr ''/9j/4AAQ''),
      open_image = (\<lambda>b64. Inr 1),
      generate_content = (\<lambda>p img. Inr (Inr example_text)),
      json_loads = example_loads,
      time_time = 1700000000, utcnow_timestamp = 1700000000,
      utcnow_isoformat = ''2023-11-14T22:13:20'',
      make_model = (\<lambda>key. None)\<rparr>"

section \<open>Properties of the OCR stage\<close>

lemma strip_idem: "strip (strip s) = strip s"
  unfolding strip_def
  by (metis (no_types, lifting) ext Nil_is_rev_conv dropWhile_eq_Nil_conv
      dropWhile_eq_self_iff dropWhile_last hd_dropWhile last_rev rev_swap)

lemma ocr_element_kept:
  "ocr_element ios d i = Inr (Some el) \<Longrightarrow> fragment_ok el"
  by (auto simp: ocr_element_def and_then_def Let_def div_100_def fragment_ok_def strip_idem
      split: sum.splits if_splits)

lemma ocr_loop_kept:
  "ocr_loop ios d idxs acc = Inr els \<Longrightarrow> \<forall>el \<in> set acc. fragment_ok el \<Longrightarrow>
   \<forall>el \<in> set els. fragment_ok el"
proof (induction idxs arbitrary: acc)
  case Nil
  then show ?case by simp
next
  case (Cons i rest)
  show ?case
  proof (cases "ocr_element ios d i")
    case (Inl e)
    with Cons.prems show ?thesis by simp
  next
    case (Inr r)
    show ?thesis
    proof (cases r)
      case None
      with Inr Cons show ?thesis by simp
    next
      case (Some el)
      with Inr have "fragment_ok el" by (simp add: ocr_element_kept)
      with Some Inr Cons.prems Cons.IH [of "acc @ [el]"] show ?thesis by simp
    qed
  qed
qed

lemma example_ocr_elements:
  "ocr_element ios example_data 0 = Inr (Some example_element)"
  "ocr_element ios example_data (Suc 0) = Inr None"
  "ocr_element ios example_data (Suc (Suc 0)) = Inr None"
  by (simp_all add: example_data_def example_element_def and_then_def ocr_element_def
      py_index_def py_int_def div_100_def strip_def is_space_def)

lemma example_rows: "[0..<length (col_text example_data)] = [0, Suc 0, Suc (Suc 0)]"
  by (simp add: example_data_def upt_conv_Cons)

lemma example_extract:
  "extract_text_with_boxes example_world img = ([example_element], [Call ExtractText])"
proof -
  have "image_to_data example_world img = Inr example_data"
    by (simp add: example_world_def)
  then have "ocr_try example_world img = Inr [example_element]"
    by (simp add: ocr_try_def and_then_def example_rows example_ocr_elements)
  then show ?thesis
    by (simp add: extract_text_with_boxes_def)
qed

text \<open>
  C4. Every fragment that \<^verbatim>\<open>extract_text_with_boxes\<close> returns has trimmed, non-empty
  text and a confidence above 30 on the engine's scale (so at least 0.3 after the
  division by 100); when the OCR call raises, or anything else inside the \<^verbatim>\<open>try\<close>
  block does, the function returns the empty list and logs one warning.
\<close>

theorem extract_text_with_boxes_filtered:
  "(\<forall>el \<in> set (fst (extract_text_with_boxes w img)). fragment_ok el) \<and>
   (\<forall>e. ocr_try w img = Inl e \<longrightarrow>
      extract_text_with_boxes w img =
        ([], [Call ExtractText,
              Log WARNING (''OCR processing failed (Tesseract not available): '' @ exn_str e)])) \<and>
   (\<forall>e. image_to_data w img = Inl e \<longrightarrow> ocr_try w img = Inl e)"
proof (intro conjI allI impI)
  show "\<forall>el \<in> set (fst (extract_text_with_boxes w img)). fragment_ok el"
  proof (cases "ocr_try w img")
    case (Inl e)
    then show ?thesis by (simp add: extract_text_with_boxes_def)
  next
    case (Inr els)
    then obtain data where "ocr_loop (int_of_str w) data [0..<length (col_text data)] [] = Inr els"
      by (auto simp: ocr_try_def and_then_def split: sum.splits)
    then have "\<forall>el \<in> set els. fragment_ok el"
      by (rule ocr_loop_kept) simp
    with Inr show ?thesis by (simp add: extract_text_with_boxes_def)
  qed
next
  fix e assume "ocr_try w img = Inl e"
  then show "extract_text_with_boxes w img =
        ([], [Call ExtractText,
              Log WARNING (''OCR processing failed (Tesseract not available): '' @ exn_str e)])"
    by (simp add: extract_text_with_boxes_def)
next
  fix e assume "image_to_data w img = Inl e"
  then show "ocr_try w img = Inl e"
    by (simp add: ocr_try_def and_then_def)
qed

theorem extract_text_with_boxes_filtered_witness:
  "extract_text_with_boxes example_world 0 = ([example_element], [Call ExtractText]) \<and>
   fragment_ok example_element \<and>
   extract_text_with_boxes
     (example_world\<lparr>image_to_data := (\<lambda>img. Inl (Exn ExternalError ''tesseract is not installed''))\<rparr>) 0 =
     ([], [Call ExtractText,
           Log WARNING ''OCR processing failed (Tesseract not available): tesseract is not installed''])"
proof -
  let ?w = "example_world\<lparr>image_to_data := (\<lambda>img. Inl (Exn ExternalError ''tesseract is not installed''))\<rparr>"
  have "\<forall>el \<in> set (fst (extract_text_with_boxes example_world 0)). fragment_ok el"
    using extract_text_with_boxes_filtered [of example_world 0] by blast
  then have ok: "fragment_ok example_element"
    by (simp add: example_extract)
  have "image_to_data ?w 0 = Inl (Exn ExternalError ''tesseract is not installed'')"
    by simp
  then have "extract_text_with_boxes ?w 0 =
     ([], [Call ExtractText,
           Log WARNING (''OCR processing failed (Tesseract not available): '' @
             exn_str (Exn ExternalError ''tesseract is not installed''))])"
    using extract_text_with_boxes_filtered [of ?w 0] by blast
  with ok show ?thesis
    by (simp add: example_extract)
qed

section \<open>Properties of the response cleaning\<close>

lemma strip_space_Cons: "is_space c \<Longrightarrow> strip (c # s) = strip s"
  by (simp add: strip_def)

lemma strip_space_snoc: "is_space c \<Longrightarrow> strip (s @ [c]) = strip s"
  by (cases "\<forall>x \<in> set s. is_space x")
     (auto simp: strip_def dropWhile_append dest: set_dropWhileD)

lemma strip_keeps:
  "s \<noteq> [] \<Longrightarrow> \<not> is_space (hd s) \<Longrightarrow> \<not> is_space (last s) \<Longrightarrow> strip s = s"
proof -
  assume ne: "s \<noteq> []" and h: "\<not> is_space (hd s)" and l: "\<not> is_space (last s)"
  from ne h have "dropWhile is_space s = s"
    by (cases s) auto
  moreover from ne l have "dropWhile is_space (rev s) = rev s"
    by (cases "rev s") (auto simp: hd_rev dest: arg_cong [where f = hd])
  ultimately show ?thesis
    by (simp add: strip_def)
qed

lemma endswith_append: "endswith (xs @ p) p"
  by (simp add: endswith_def)

lemma backtick_no_space: "\<not> is_space CHR ''`''" "is_space CHR ''\<newline>''"
  by (simp_all add: is_space_def)

lemma clean_response_text_json_fence:
  "clean_response_text (''```json\<newline>'' @ body @ ''\<newline>```'') = strip body"
proof -
  let ?s = "''```json\<newline>'' @ body @ ''\<newline>```''"
  have s1: "strip ?s = ?s"
    by (rule strip_keeps) (simp_all add: backtick_no_space)
  have s2: "startswith ?s ''```json''"
    by (simp add: startswith_def)
  have s3: "drop 7 ?s = (''\<newline>'' @ body @ ''\<newline>'') @ ''```''"
    by simp
  have s4: "take (length ((''\<newline>'' @ body @ ''\<newline>'') @ ''```'') - 3)
              ((''\<newline>'' @ body @ ''\<newline>'') @ ''```'') = ''\<newline>'' @ body @ ''\<newline>''"
    by simp
  have s5: "strip (''\<newline>'' @ body @ ''\<newline>'') = strip body"
    using strip_space_snoc [of "CHR ''\<newline>''" "CHR ''\<newline>'' # body"]
      strip_space_Cons [of "CHR ''\<newline>''" body]
    by (simp add: backtick_no_space)
  have "clean_response_text ?s =
        strip (take (length (drop 7 ?s) - 3) (drop 7 ?s))"
    unfolding clean_response_text_def Let_def s1 using s2 endswith_append [of "''\<newline>'' @ body @ ''\<newline>''" "''```''"]
    by (simp only: s3 if_True)
  then show ?thesis
    by (simp only: s3 s4 s5)
qed

lemma example_body_stripped: "strip example_body = example_body"
  by (rule strip_keeps) (simp_all add: example_body_def is_space_def)

lemma example_text_cleaned: "clean_response_text example_text = example_body"
  unfolding example_text_def
  by (simp only: clean_response_text_json_fence example_body_stripped)

lemma clean_response_text_bare_fence:
  "clean_response_text (''```\<newline>'' @ body @ ''\<newline>```'') = strip (''```\<newline>'' @ body)"
proof -
  let ?s = "''```\<newline>'' @ body @ ''\<newline>```''"
  have s1: "strip ?s = ?s"
    by (rule strip_keeps) (simp_all add: backtick_no_space)
  have s2: "\<not> startswith ?s ''```json''"
    by (simp add: startswith_def)
  have s3: "?s = (''```\<newline>'' @ body @ ''\<newline>'') @ ''```''"
    by simp
  have s4: "take (length ((''```\<newline>'' @ body @ ''\<newline>'') @ ''```'') - 3)
              ((''```\<newline>'' @ body @ ''\<newline>'') @ ''```'') = ''```\<newline>'' @ body @ ''\<newline>''"
    by simp
  have s5: "strip (''```\<newline>'' @ body @ ''\<newline>'') = strip (''```\<newline>'' @ body)"
    using strip_space_snoc [of "CHR ''\<newline>''" "''```\<newline>'' @ body"]
    by (simp add: backtick_no_space)
  have "clean_response_text ?s = strip (take (length ?s - 3) ?s)"
    unfolding clean_response_text_def Let_def s1
    using s2 endswith_append [of "''```\<newline>'' @ body @ ''\<newline>''" "''```''"]
    by (simp only: s3 [symmetric] if_True if_False)
  also have "\<dots> = strip (''```\<newline>'' @ body @ ''\<newline>'')"
    by (simp only: s3 s4)
  finally show ?thesis
    by (simp only: s5)
qed

lemma bare_fence_cleaned:
  "clean_response_text (''```\<newline>'' @ example_body @ ''\<newline>```'') = ''```\<newline>'' @ example_body"
proof -
  have "strip (''```\<newline>'' @ example_body) = ''```\<newline>'' @ example_body"
    by (rule strip_keeps) (simp_all add: example_body_def is_space_def)
  then show ?thesis
    by (simp only: clean_response_text_bare_fence)
qed

lemma example_loads_rejects: "s \<noteq> example_body \<Longrightarrow>
  example_loads s = Inl (Exn JSONDecodeError ''Expecting value: line 1 column 1 (char 0)'')"
  by (simp add: example_loads_def)

text \<open>
  C3. The cleaning strips a leading fence only when it is tagged \<^verbatim>\<open>json\<close>. A reply
  wrapped in a bare triple-backtick fence loses its trailing fence and keeps the leading
  one, so the text handed to the parser starts with three backticks and the reply is
  answered with the fallback commands, although the same body in a tagged fence is parsed.
\<close>

theorem clean_response_text_untagged_fence:
  "clean_response_text (''```\<newline>'' @ example_body @ ''\<newline>```'') = ''```\<newline>'' @ example_body \<and>
   fst (analyze_screen_elements
          (example_world\<lparr>generate_content := (\<lambda>p img. Inr (Inr (''```\<newline>'' @ example_body @ ''\<newline>```'')))\<rparr>)
          None [] ''/9j/4AAQ'') = get_fallback_commands \<and>
   clean_response_text (''```json\<newline>'' @ example_body @ ''\<newline>```'') = example_body"
proof (intro conjI)
  show c: "clean_response_text (''```\<newline>'' @ example_body @ ''\<newline>```'') = ''```\<newline>'' @ example_body"
    by (rule bare_fence_cleaned)
  have "''```\<newline>'' @ example_body \<noteq> example_body"
    by simp
  then have "example_loads (''```\<newline>'' @ example_body) =
      Inl (Exn JSONDecodeError ''Expecting value: line 1 column 1 (char 0)'')"
    by (rule example_loads_rejects)
  then have "parse_commands example_loads (Inr (''```\<newline>'' @ example_body @ ''\<newline>```'')) =
      Inl (Exn JSONDecodeError ''Expecting value: line 1 column 1 (char 0)'')"
    unfolding parse_commands_def and_then_def by (simp only: c sum.case)
  then show "fst (analyze_screen_elements
          (example_world\<lparr>generate_content := (\<lambda>p img. Inr (Inr (''```\<newline>'' @ example_body @ ''\<newline>```'')))\<rparr>)
          None [] ''/9j/4AAQ'') = get_fallback_commands"
    by (simp add: analyze_screen_elements_def example_world_def)
  show "clean_response_text (''```json\<newline>'' @ example_body @ ''\<newline>```'') = example_body"
    by (simp only: clean_response_text_json_fence example_body_stripped)
qed

section \<open>Properties of the command generation\<close>

lemma fallback_kinds:
  "map action_type get_fallback_commands = [PStr ''click'', PStr ''type'', PStr ''scroll'']"
  by (simp add: get_fallback_commands_def)

lemma parse_failed_fallback:
  "open_image w b64 = Inr pil \<Longrightarrow> generate_content w ElementsPrompt pil = Inr response \<Longrightarrow>
   parse_commands (json_loads w) response = Inl e \<Longrightarrow>
   analyze_screen_elements w la els b64 =
     (get_fallback_commands, la,
      [Call AnalyzeScreenElements, Call GenerateContent] @
      parse_failure_log ''Failed to parse Gemini response as JSON: ''
        ''Gemini analysis failed: '' response e)"
  by (simp add: analyze_screen_elements_def)

lemma json_error_parse:
  "json_loads w (clean_response_text t) = Inl e \<Longrightarrow>
   parse_commands (json_loads w) (Inr t) = Inl e"
  by (simp add: parse_commands_def and_then_def)

lemma transport_failure_fallback:
  assumes "transport_failure w b64 e"
  shows "\<exists>calls. analyze_screen_elements w la els b64 =
           (get_fallback_commands, la,
            calls @ [Log ERROR (''Gemini analysis failed: '' @ exn_str e)]) \<and>
         set calls \<subseteq> {Call AnalyzeScreenElements, Call GenerateContent}"
proof (cases "open_image w b64")
  case (Inl e')
  with assms have "e' = e" by (simp add: transport_failure_def)
  with Inl show ?thesis
    by (intro exI [of _ "[Call AnalyzeScreenElements]"])
       (simp add: analyze_screen_elements_def)
next
  case (Inr pil)
  show ?thesis
  proof (cases "generate_content w ElementsPrompt pil")
    case (Inl e')
    with assms Inr have "e' = e" by (simp add: transport_failure_def)
    with Inl Inr show ?thesis
      by (intro exI [of _ "[Call AnalyzeScreenElements, Call GenerateContent]"])
         (simp add: analyze_screen_elements_def)
  next
    case response: (Inr response)
    show ?thesis
    proof (cases response)
      case (Inl e')
      with assms Inr response have r: "e' = e" and c: "exn_class_of e \<noteq> JSONDecodeError"
        by (simp_all add: transport_failure_def)
      have "parse_commands (json_loads w) response = Inl e"
        by (simp add: Inl r parse_commands_def and_then_def)
      with Inr response c show ?thesis
        by (intro exI [of _ "[Call AnalyzeScreenElements, Call GenerateContent]"])
           (simp add: parse_failed_fallback parse_failure_log_def)
    next
      case (Inr t)
      with assms \<open>open_image w b64 = Inr pil\<close> response show ?thesis
        by (simp add: transport_failure_def)
    qed
  qed
qed

text \<open>
  Every call returns either what the parsing block produced or the fallback commands;
  there is no third outcome.
\<close>

lemma analyze_screen_elements_total:
  "fst (analyze_screen_elements w la els b64) = get_fallback_commands \<or>
   (\<exists>pil response data.
      open_image w b64 = Inr pil \<and> generate_content w ElementsPrompt pil = Inr response \<and>
      parse_commands (json_loads w) response =
        Inr (fst (analyze_screen_elements w la els b64), data))"
  by (auto simp: analyze_screen_elements_def split: sum.splits)

lemma other_exception_fallback:
  "open_image w b64 = Inr pil \<Longrightarrow> generate_content w ElementsPrompt pil = Inr response \<Longrightarrow>
   parse_commands (json_loads w) response = Inl e \<Longrightarrow> exn_class_of e \<noteq> JSONDecodeError \<Longrightarrow>
   analyze_screen_elements w la els b64 =
     (get_fallback_commands, la,
      [Call AnalyzeScreenElements, Call GenerateContent,
       Log ERROR (''Gemini analysis failed: '' @ exn_str e)])"
  by (simp add: parse_failed_fallback parse_failure_log_def)

lemma transport_failure_no_warning:
  assumes "transport_failure w b64 e"
  shows "\<not> list_ex (is_log WARNING) (snd (snd (analyze_screen_elements w la els b64)))"
proof -
  from transport_failure_fallback [OF assms, of la els] obtain calls where
    r: "analyze_screen_elements w la els b64 =
          (get_fallback_commands, la,
           calls @ [Log ERROR (''Gemini analysis failed: '' @ exn_str e)])"
    and c: "set calls \<subseteq> {Call AnalyzeScreenElements, Call GenerateContent}"
    by blast
  from c have "\<forall>x \<in> set calls. \<not> is_log WARNING x"
    by auto
  then show ?thesis
    unfolding r by (simp add: list_ex_iff)
qed

text \<open>
  C1, as the code has it. A reply whose cleaned text the parser rejects with a
  \<^verbatim>\<open>JSONDecodeError\<close> gives the three fallback commands and two warnings. A transport
  or API failure, and any other exception of the parsing block whose class is not
  \<^verbatim>\<open>JSONDecodeError\<close>, gives the same commands and exactly one record at error level,
  no warning. In each case the stored analysis is left as it was. The commands are
  click, type and scroll. Every call returns: its result is what the parsing block
  produced or the fallback commands.
\<close>

theorem analyze_screen_elements_fallback:
  "(\<forall>pil t e.
      open_image w b64 = Inr pil \<longrightarrow> generate_content w ElementsPrompt pil = Inr (Inr t) \<longrightarrow>
      json_loads w (clean_response_text t) = Inl e \<longrightarrow> exn_class_of e = JSONDecodeError \<longrightarrow>
      analyze_screen_elements w la els b64 =
        (get_fallback_commands, la,
         [Call AnalyzeScreenElements, Call GenerateContent,
          Log WARNING (''Failed to parse Gemini response as JSON: '' @ exn_str e),
          Log WARNING (''Response text: '' @ take 200 t @ ''...'')])) \<and>
   (\<forall>e. transport_failure w b64 e \<longrightarrow>
      (\<exists>calls. analyze_screen_elements w la els b64 =
           (get_fallback_commands, la,
            calls @ [Log ERROR (''Gemini analysis failed: '' @ exn_str e)]) \<and>
         set calls \<subseteq> {Call AnalyzeScreenElements, Call GenerateContent}) \<and>
      \<not> list_ex (is_log WARNING) (snd (snd (analyze_screen_elements w la els b64)))) \<and>
   (\<forall>pil response e.
      open_image w b64 = Inr pil \<longrightarrow> generate_content w ElementsPrompt pil = Inr response \<longrightarrow>
      parse_commands (json_loads w) response = Inl e \<longrightarrow> exn_class_of e \<noteq> JSONDecodeError \<longrightarrow>
      analyze_screen_elements w la els b64 =
        (get_fallback_commands, la,
         [Call AnalyzeScreenElements, Call GenerateContent,
          Log ERROR (''Gemini analysis failed: '' @ exn_str e)])) \<and>
   (fst (analyze_screen_elements w la els b64) = get_fallback_commands \<or>
    (\<exists>pil response data.
       open_image w b64 = Inr pil \<and> generate_content w ElementsPrompt pil = Inr response \<and>
       parse_commands (json_loads w) response =
         Inr (fst (analyze_screen_elements w la els b64), data))) \<and>
   map action_type get_fallback_commands = [PStr ''click'', PStr ''type'', PStr ''scroll'']"
proof (intro conjI allI impI)
  fix pil t e
  assume "open_image w b64 = Inr pil" "generate_content w ElementsPrompt pil = Inr (Inr t)"
    "json_loads w (clean_response_text t) = Inl e" "exn_class_of e = JSONDecodeError"
  then show "analyze_screen_elements w la els b64 =
        (get_fallback_commands, la,
         [Call AnalyzeScreenElements, Call GenerateContent,
          Log WARNING (''Failed to parse Gemini response as JSON: '' @ exn_str e),
          Log WARNING (''Response text: '' @ take 200 t @ ''...'')])"
    by (simp add: parse_failed_fallback json_error_parse parse_failure_log_def)
next
  fix e assume "transport_failure w b64 e"
  then show "\<exists>calls. analyze_screen_elements w la els b64 =
           (get_fallback_commands, la,
            calls @ [Log ERROR (''Gemini analysis failed: '' @ exn_str e)]) \<and>
         set calls \<subseteq> {Call AnalyzeScreenElements, Call GenerateContent}"
    by (rule transport_failure_fallback)
next
  fix e assume "transport_failure w b64 e"
  then show "\<not> list_ex (is_log WARNING) (snd (snd (analyze_screen_elements w la els b64)))"
    by (rule transport_failure_no_warning)
next
  fix pil response e
  assume "open_image w b64 = Inr pil" "generate_content w ElementsPrompt pil = Inr response"
    "parse_commands (json_loads w) response = Inl e" "exn_class_of e \<noteq> JSONDecodeError"
  then show "analyze_screen_elements w la els b64 =
        (get_fallback_commands, la,
         [Call AnalyzeScreenElements, Call GenerateContent,
          Log ERROR (''Gemini analysis failed: '' @ exn_str e)])"
    by (rule other_exception_fallback)
next
  show "fst (analyze_screen_elements w la els b64) = get_fallback_commands \<or>
    (\<exists>pil response data.
       open_image w b64 = Inr pil \<and> generate_content w ElementsPrompt pil = Inr response \<and>
       parse_commands (json_loads w) response =
         Inr (fst (analyze_screen_elements w la els b64), data))"
    by (rule analyze_screen_elements_total)
next
  show "map action_type get_fallback_commands = [PStr ''click'', PStr ''type'', PStr ''scroll'']"
    by (rule fallback_kinds)
qed

theorem analyze_screen_elements_fallback_witness:
  "analyze_screen_elements
     (example_world\<lparr>generate_content := (\<lambda>p img. Inr (Inr ''Sorry, I cannot help.''))\<rparr>)
     None [] ''/9j/4AAQ'' =
     (get_fallback_commands, None,
      [Call AnalyzeScreenElements, Call GenerateContent,
       Log WARNING ''Failed to parse Gemini response as JSON: Expecting value: line 1 column 1 (char 0)'',
       Log WARNING ''Response text: Sorry, I cannot help....'']) \<and>
   (\<exists>calls. analyze_screen_elements
      (example_world\<lparr>generate_content := (\<lambda>p img. Inl (Exn ExternalError ''503 Service Unavailable''))\<rparr>)
      None [] ''/9j/4AAQ'' =
      (get_fallback_commands, None,
       calls @ [Log ERROR ''Gemini analysis failed: 503 Service Unavailable''])) \<and>
   analyze_screen_elements
     (example_world\<lparr>json_loads := (\<lambda>s. Inr (PDict [(''suggested_actions'', PList [PStr ''click''])]))\<rparr>)
     None [] ''/9j/4AAQ'' =
     (get_fallback_commands, None,
      [Call AnalyzeScreenElements, Call GenerateContent,
       Log ERROR (''Gemini analysis failed: '' @ exn_str (no_attribute (PStr ''click'') ''get''))])"
proof -
  let ?w1 = "example_world\<lparr>generate_content := (\<lambda>p img. Inr (Inr ''Sorry, I cannot help.''))\<rparr>"
  let ?w2 = "example_world\<lparr>generate_content := (\<lambda>p img. Inl (Exn ExternalError ''503 Service Unavailable''))\<rparr>"
  let ?w3 = "example_world\<lparr>json_loads := (\<lambda>s. Inr (PDict [(''suggested_actions'', PList [PStr ''click''])]))\<rparr>"
  let ?e = "Exn JSONDecodeError ''Expecting value: line 1 column 1 (char 0)''"
  have "strip ''Sorry, I cannot help.'' = ''Sorry, I cannot help.''"
    by (rule strip_keeps) (simp_all add: is_space_def)
  then have clean: "clean_response_text ''Sorry, I cannot help.'' = ''Sorry, I cannot help.''"
    by (simp add: clean_response_text_def startswith_def endswith_def)
  have a: "open_image ?w1 ''/9j/4AAQ'' = Inr 1"
    and b: "generate_content ?w1 ElementsPrompt 1 = Inr (Inr ''Sorry, I cannot help.'')"
    by (simp_all add: example_world_def)
  have c: "json_loads ?w1 (clean_response_text ''Sorry, I cannot help.'') = Inl ?e"
    unfolding clean by (simp add: example_world_def example_loads_def example_body_def)
  have d: "exn_class_of ?e = JSONDecodeError"
    by simp
  have t: "transport_failure ?w2 ''/9j/4AAQ'' (Exn ExternalError ''503 Service Unavailable'')"
    by (simp add: transport_failure_def example_world_def)
  have a3: "open_image ?w3 ''/9j/4AAQ'' = Inr 1"
    and b3: "generate_content ?w3 ElementsPrompt 1 = Inr (Inr example_text)"
    by (simp_all add: example_world_def)
  have c3: "parse_commands (json_loads ?w3) (Inr example_text) =
      Inl (no_attribute (PStr ''click'') ''get'')"
    by (simp add: parse_commands_def and_then_def make_command_def example_world_def)
  have d3: "exn_class_of (no_attribute (PStr ''click'') ''get'') \<noteq> JSONDecodeError"
    by (simp add: no_attribute_def)
  note parse = analyze_screen_elements_fallback
    [of ?w1 "''/9j/4AAQ''" None "[]", THEN conjunct1, rule_format, OF a b c d]
  note transport = analyze_screen_elements_fallback
    [of ?w2 "''/9j/4AAQ''" None "[]", THEN conjunct2, THEN conjunct1, rule_format, OF t]
  note other = analyze_screen_elements_fallback
    [of ?w3 "''/9j/4AAQ''" None "[]", THEN conjunct2, THEN conjunct2, THEN conjunct1,
     rule_format, OF a3 b3 c3 d3]
  from transport obtain calls where
    "analyze_screen_elements ?w2 None [] ''/9j/4AAQ'' =
       (get_fallback_commands, None,
        calls @ [Log ERROR (''Gemini analysis failed: '' @
          exn_str (Exn ExternalError ''503 Service Unavailable''))])"
    by (elim exE conjE)
  then have "\<exists>calls. analyze_screen_elements ?w2 None [] ''/9j/4AAQ'' =
      (get_fallback_commands, None,
       calls @ [Log ERROR ''Gemini analysis failed: 503 Service Unavailable''])"
    by (intro exI [of _ calls]) simp
  moreover have "analyze_screen_elements ?w1 None [] ''/9j/4AAQ'' =
     (get_fallback_commands, None,
      [Call AnalyzeScreenElements, Call GenerateContent,
       Log WARNING ''Failed to parse Gemini response as JSON: Expecting value: line 1 column 1 (char 0)'',
       Log WARNING ''Response text: Sorry, I cannot help....''])"
    unfolding parse by simp
  ultimately show ?thesis
    using other by (intro conjI)
qed

text \<open>
  The claim as the specification words it asks for a warning on a transport failure too.
  When the request to the model raises, the only record logged is at error level.
\<close>

theorem transport_failure_logs_no_warning:
  "transport_failure
     (example_world\<lparr>generate_content := (\<lambda>p img. Inl (Exn ExternalError ''503 Service Unavailable''))\<rparr>)
     ''/9j/4AAQ'' (Exn ExternalError ''503 Service Unavailable'') \<and>
   analyze_screen_elements
     (example_world\<lparr>generate_content := (\<lambda>p img. Inl (Exn ExternalError ''503 Service Unavailable''))\<rparr>)
     None [] ''/9j/4AAQ'' =
     (get_fallback_commands, None,
      [Call AnalyzeScreenElements, Call GenerateContent,
       Log ERROR ''Gemini analysis failed: 503 Service Unavailable'']) \<and>
   \<not> list_ex (is_log WARNING)
       (snd (snd (analyze_screen_elements
          (example_world\<lparr>generate_content := (\<lambda>p img. Inl (Exn ExternalError ''503 Service Unavailable''))\<rparr>)
          None [] ''/9j/4AAQ'')))"
proof -
  let ?w = "example_world\<lparr>generate_content := (\<lambda>p img. Inl (Exn ExternalError ''503 Service Unavailable''))\<rparr>"
  have t: "transport_failure ?w ''/9j/4AAQ'' (Exn ExternalError ''503 Service Unavailable'')"
    by (simp add: transport_failure_def example_world_def)
  have r: "analyze_screen_elements ?w None [] ''/9j/4AAQ'' =
      (get_fallback_commands, None,
       [Call AnalyzeScreenElements, Call GenerateContent,
        Log ERROR ''Gemini analysis failed: 503 Service Unavailable''])"
    by (simp add: analyze_screen_elements_def example_world_def)
  have "\<not> list_ex (is_log WARNING) (snd (snd (analyze_screen_elements ?w None [] ''/9j/4AAQ'')))"
    unfolding r by simp
  with t r show ?thesis
    by (intro conjI)
qed

lemma make_command_schema:
  "schema_action a \<Longrightarrow> make_command a = Inr (spec_command a)"
  by (cases a)
     (auto simp: schema_action_def make_command_def spec_command_def spec_field_def
        and_then_def py_tuple_def split: option.splits pyval.splits if_splits)

lemma commands_loop_schema:
  "list_all schema_action items \<Longrightarrow>
   commands_loop items acc = Inr (acc @ map spec_command items)"
  by (induction items arbitrary: acc) (simp_all add: make_command_schema)

lemma parse_commands_schema:
  assumes "loads (clean_response_text t) = Inr data" "schema_actions data = Some actions"
  shows "parse_commands loads (Inr t) = Inr (map spec_command actions, data)"
proof -
  from assms(2) obtain kvs where d: "data = PDict kvs"
    and s: "map_of kvs ''suggested_actions'' = Some (PList actions)"
    and ok: "list_all schema_action actions"
    by (cases data) (auto simp: schema_actions_def split: option.splits pyval.splits if_splits)
  show ?thesis
    by (simp add: parse_commands_def and_then_def assms(1) d s commands_loop_schema [OF ok])
qed

text \<open>
  C2. When the model call succeeds and the cleaned reply parses to a value that matches
  the schema, the commands returned are the action objects of \<^verbatim>\<open>suggested_actions\<close>
  mapped one by one, in order, to the command the specification describes: each field
  from the object, with the defaults \<^verbatim>\<open>unknown\<close>, \<^verbatim>\<open>Unknown target\<close>, no coordinates
  (entry missing or falsy), \<^verbatim>\<open>{}\<close> and 0.5. The parsed reply is stored.
\<close>

theorem analyze_screen_elements_schema:
  assumes "open_image w b64 = Inr pil"
    and "generate_content w ElementsPrompt pil = Inr (Inr t)"
    and "json_loads w (clean_response_text t) = Inr data"
    and "schema_actions data = Some actions"
  shows "analyze_screen_elements w la els b64 =
           (map spec_command actions, Some data,
            [Call AnalyzeScreenElements, Call GenerateContent]) \<and>
         length (fst (analyze_screen_elements w la els b64)) = length actions \<and>
         (\<forall>i < length actions.
            fst (analyze_screen_elements w la els b64) ! i = spec_command (actions ! i))"
proof -
  have "parse_commands (json_loads w) (Inr t) = Inr (map spec_command actions, data)"
    using assms(3,4) by (rule parse_commands_schema)
  with assms(1,2) have "analyze_screen_elements w la els b64 =
      (map spec_command actions, Some data, [Call AnalyzeScreenElements, Call GenerateContent])"
    by (simp add: analyze_screen_elements_def)
  then show ?thesis
    by simp
qed

lemma example_schema:
  "schema_actions example_json =
     Some [PDict [(''action_type'', PStr ''click''), (''coordinates'', PList [PInt 5, PInt 7])],
           PDict []]"
  by (simp add: schema_actions_def example_json_def schema_action_def)

theorem analyze_screen_elements_schema_witness:
  "analyze_screen_elements example_world None [] ''/9j/4AAQ'' =
     ([\<lparr>action_type = PStr ''click'', target = PStr ''Unknown target'',
        coordinates = PTuple [PInt 5, PInt 7], parameters = PDict [],
        confidence = PFloat (1 / 2)\<rparr>,
       \<lparr>action_type = PStr ''unknown'', target = PStr ''Unknown target'',
        coordinates = PNone, parameters = PDict [],
        confidence = PFloat (1 / 2)\<rparr>],
      Some example_json,
      [Call AnalyzeScreenElements, Call GenerateContent])"
proof -
  have a: "open_image example_world ''/9j/4AAQ'' = Inr 1"
    and b: "generate_content example_world ElementsPrompt 1 = Inr (Inr example_text)"
    by (simp_all add: example_world_def)
  have c: "json_loads example_world (clean_response_text example_text) = Inr example_json"
    by (simp add: example_text_cleaned example_world_def example_loads_def)
  note analyze_screen_elements_schema [OF a b c example_schema, of None "[]", THEN conjunct1]
  then show ?thesis
    by (simp add: spec_command_def spec_field_def)
qed

section \<open>Properties of the single-shot analysis\<close>

lemma capture_screen_failed:
  "grab w None = Inl e \<or> (\<exists>shot. grab w None = Inr shot \<and> cvt_bgr w shot = Inl e) \<Longrightarrow>
   capture_screen w custom FULL_SCREEN =
     (None, [Call CaptureScreen, Log ERROR (''Screen capture failed: '' @ exn_str e)])"
  by (auto simp: capture_screen_def and_then_def)

lemma capture_screen_cases:
  "capture_screen w custom region = (None, fx) \<Longrightarrow>
     \<exists>e. fx = [Call CaptureScreen, Log ERROR (''Screen capture failed: '' @ exn_str e)]"
  by (auto simp: capture_screen_def split: sum.splits)

lemma capture_screen_ok:
  "capture_screen w custom region = (Some shot, fx) \<Longrightarrow> fx = [Call CaptureScreen]"
  by (auto simp: capture_screen_def split: sum.splits)

text \<open>
  C5. When the capture fails, \<^verbatim>\<open>analyze_current_screen\<close> returns the capture error at
  once: the only stage entered is the capture, and neither the preprocessor, the OCR stage
  nor any model call appears among the effects. The reader is unchanged.
\<close>

theorem analyze_current_screen_capture_failed:
  assumes "capture_screen w (custom_region rd) FULL_SCREEN = (None, fx)"
  shows "analyze_current_screen w rd =
           (PDict [(''error'', PStr ''Failed to capture screen'')], rd, fx) \<and>
         (\<exists>e. fx = [Call CaptureScreen, Log ERROR (''Screen capture failed: '' @ exn_str e)]) \<and>
         Call PreprocessImage \<notin> set fx \<and> Call ExtractText \<notin> set fx \<and>
         Call AnalyzeScreenElements \<notin> set fx \<and> Call InterpretScreenContext \<notin> set fx \<and>
         Call GenerateContent \<notin> set fx"
proof -
  from assms obtain e where
    fx: "fx = [Call CaptureScreen, Log ERROR (''Screen capture failed: '' @ exn_str e)]"
    using capture_screen_cases by blast
  from assms have "analyze_current_screen w rd =
      (PDict [(''error'', PStr ''Failed to capture screen'')], rd, fx)"
    by (simp add: analyze_current_screen_def)
  moreover from fx have "\<exists>e. fx = [Call CaptureScreen, Log ERROR (''Screen capture failed: '' @ exn_str e)]" ..
  moreover from fx have "Call PreprocessImage \<notin> set fx" "Call ExtractText \<notin> set fx"
    "Call AnalyzeScreenElements \<notin> set fx" "Call InterpretScreenContext \<notin> set fx"
    "Call GenerateContent \<notin> set fx"
    by simp_all
  ultimately show ?thesis
    by (intro conjI)
qed

theorem analyze_current_screen_capture_failed_witness:
  "analyze_current_screen (example_world\<lparr>grab := (\<lambda>bbox. Inl (Exn ExternalError ''no display''))\<rparr>)
     new_reader =
     (PDict [(''error'', PStr ''Failed to capture screen'')], new_reader,
      [Call CaptureScreen, Log ERROR ''Screen capture failed: no display''])"
proof -
  let ?w = "example_world\<lparr>grab := (\<lambda>bbox. Inl (Exn ExternalError ''no display''))\<rparr>"
  have "capture_screen ?w (custom_region new_reader) FULL_SCREEN =
      (None, [Call CaptureScreen, Log ERROR ''Screen capture failed: no display''])"
    by (simp add: capture_screen_def and_then_def example_world_def)
  from analyze_current_screen_capture_failed [OF this, THEN conjunct1]
  show ?thesis .
qed

text \<open>The instrumentation is live: after a successful capture the preprocessor is entered.\<close>

lemma analyze_current_screen_enters_preprocess:
  "capture_screen w (custom_region rd) FULL_SCREEN = (Some shot, fx) \<Longrightarrow>
   Call PreprocessImage \<in> set (snd (snd (analyze_current_screen w rd)))"
  by (auto simp: analyze_current_screen_def preprocess_image_def analysis_failed_def Let_def
      split: prod.splits sum.splits)

lemma analyze_current_screen_keys:
  "dict_keys (fst (analyze_current_screen w rd)) = [''error''] \<or>
   dict_keys (fst (analyze_current_screen w rd)) =
     [''timestamp'', ''elements'', ''commands'', ''interpretation'', ''detailed_analysis'',
      ''screenshot_b64'', ''summary'']"
  by (auto simp: analyze_current_screen_def analysis_failed_def Let_def
      split: prod.splits option.splits sum.splits)

lemma analyze_current_screen_dict: "\<exists>kvs. fst (analyze_current_screen w rd) = PDict kvs"
  by (auto simp: analyze_current_screen_def analysis_failed_def Let_def
      split: prod.splits option.splits sum.splits)

lemma py_get_missing:
  "k \<notin> set (dict_keys (PDict kvs)) \<Longrightarrow> py_get (PDict kvs) k dflt = Inr dflt"
  by (simp add: map_of_eq_None_iff [THEN iffD2])

text \<open>
  C9. No dictionary returned by \<^verbatim>\<open>analyze_current_screen\<close> has the key
  \<^verbatim>\<open>success\<close>: its keys are either \<^verbatim>\<open>error\<close> alone or the seven keys of a full
  result. So the test \<^verbatim>\<open>result.get('success', True)\<close> of the scripts reads the default
  and the success branch is taken on every return value.
\<close>

theorem analyze_current_screen_no_success_key:
  "''success'' \<notin> set (dict_keys (fst (analyze_current_screen w rd))) \<and>
   cli_takes_success_branch (fst (analyze_current_screen w rd)) = Inr True"
proof -
  have keys: "''success'' \<notin> set (dict_keys (fst (analyze_current_screen w rd)))"
    using analyze_current_screen_keys [of w rd] by auto
  obtain kvs where d: "fst (analyze_current_screen w rd) = PDict kvs"
    using analyze_current_screen_dict by blast
  from keys have "py_get (PDict kvs) ''success'' (PBool True) = Inr (PBool True)"
    unfolding d by (rule py_get_missing)
  then have "cli_takes_success_branch (fst (analyze_current_screen w rd)) = Inr True"
    by (simp add: cli_takes_success_branch_def and_then_def d)
  with keys show ?thesis ..
qed

theorem analyze_current_screen_no_success_key_witness:
  "cli_takes_success_branch (PDict [(''error'', PStr ''Failed to capture screen'')]) = Inr True"
proof -
  let ?w = "example_world\<lparr>grab := (\<lambda>bbox. Inl (Exn ExternalError ''no display''))\<rparr>"
  have "fst (analyze_current_screen ?w new_reader) =
      PDict [(''error'', PStr ''Failed to capture screen'')]"
    by (simp add: analyze_current_screen_def capture_screen_def and_then_def example_world_def)
  with analyze_current_screen_no_success_key [of ?w new_reader] show ?thesis
    by simp
qed

lemma interpret_screen_context_fallback:
  "interpretation_fails w b64 user_intent \<Longrightarrow>
   fst (interpret_screen_context w b64 user_intent) = get_fallback_interpretation"
  by (auto simp: interpretation_fails_def interpret_screen_context_def split: sum.splits)

lemma fallback_summary:
  "summary_of get_fallback_interpretation n m =
     Inr (PDict [(''screen_type'', PStr ''unknown''), (''application'', PStr ''Unknown''),
                 (''context'', PStr ''Screen analysis''),
                 (''elements_found'', PInt (int n)), (''commands_generated'', PInt (int m)),
                 (''confidence'', PFloat (60 / 100))])"
  by (simp add: summary_of_def get_fallback_interpretation_def and_then_def)

text \<open>
  C10. The fallback interpretation has exactly the keys \<^verbatim>\<open>screen_type\<close>,
  \<^verbatim>\<open>primary_elements\<close>, \<^verbatim>\<open>suggested_actions\<close>, \<^verbatim>\<open>context\<close> and \<^verbatim>\<open>confidence\<close>. When
  \<^verbatim>\<open>interpret_screen_context\<close> falls back inside an analysis whose capture, preprocessing
  and encoding succeed, the summary reports screen type \<^verbatim>\<open>unknown\<close>, application
  \<^verbatim>\<open>Unknown\<close>, context \<^verbatim>\<open>Screen analysis\<close> (the default of the missing
  \<^verbatim>\<open>current_context\<close>, not the fallback's own \<^verbatim>\<open>context\<close>) and confidence 0.60.
\<close>

theorem analyze_current_screen_fallback_summary:
  assumes "capture_screen w (custom_region rd) FULL_SCREEN = (Some shot, fx1)"
    and "fst (preprocess_image w shot) = Inr processed"
    and "imencode_b64 w shot = Inr b64"
    and "interpretation_fails w b64 (PStr [])"
  shows "dict_keys get_fallback_interpretation =
           [''screen_type'', ''primary_elements'', ''suggested_actions'', ''context'',
            ''confidence''] \<and>
         dict_lookup (fst (analyze_current_screen w rd)) ''interpretation'' =
           Some get_fallback_interpretation \<and>
         (\<exists>n m. dict_lookup (fst (analyze_current_screen w rd)) ''summary'' =
           Some (PDict [(''screen_type'', PStr ''unknown''), (''application'', PStr ''Unknown''),
                        (''context'', PStr ''Screen analysis''),
                        (''elements_found'', PInt n), (''commands_generated'', PInt m),
                        (''confidence'', PFloat (60 / 100))]))"
proof -
  obtain interp fx5 where
    i: "interpret_screen_context w b64 (PStr []) = (interp, fx5)"
    by (cases "interpret_screen_context w b64 (PStr [])")
  with assms(4) have f: "interp = get_fallback_interpretation"
    using interpret_screen_context_fallback [of w b64 "PStr []"] by simp
  obtain elements fx3 where e: "extract_text_with_boxes w processed = (elements, fx3)"
    by (cases "extract_text_with_boxes w processed")
  obtain commands stored fx4 where
    c: "analyze_screen_elements w (last_analysis rd) elements b64 = (commands, stored, fx4)"
    by (cases "analyze_screen_elements w (last_analysis rd) elements b64")
  obtain fx2 where p: "preprocess_image w shot = (Inr processed, fx2)"
    using assms(2) by (cases "preprocess_image w shot") simp
  have r: "fst (analyze_current_screen w rd) =
      PDict [(''timestamp'', PFloat (time_time w)), (''elements'', PList elements),
             (''commands'', PList (map command_dict commands)),
             (''interpretation'', get_fallback_interpretation),
             (''detailed_analysis'', get_detailed_analysis stored),
             (''screenshot_b64'', PStr b64),
             (''summary'',
              PDict [(''screen_type'', PStr ''unknown''), (''application'', PStr ''Unknown''),
                     (''context'', PStr ''Screen analysis''),
                     (''elements_found'', PInt (int (length elements))),
                     (''commands_generated'', PInt (int (length commands))),
                     (''confidence'', PFloat (60 / 100))])]"
    by (simp add: analyze_current_screen_def assms(1,3) p e c i f fallback_summary Let_def)
  have "dict_keys get_fallback_interpretation =
           [''screen_type'', ''primary_elements'', ''suggested_actions'', ''context'',
            ''confidence'']"
    by (simp add: get_fallback_interpretation_def)
  moreover have "dict_lookup (fst (analyze_current_screen w rd)) ''interpretation'' =
           Some get_fallback_interpretation"
    unfolding r by simp
  moreover have "\<exists>n m. dict_lookup (fst (analyze_current_screen w rd)) ''summary'' =
           Some (PDict [(''screen_type'', PStr ''unknown''), (''application'', PStr ''Unknown''),
                        (''context'', PStr ''Screen analysis''),
                        (''elements_found'', PInt n), (''commands_generated'', PInt m),
                        (''confidence'', PFloat (60 / 100))])"
    unfolding r by simp
  ultimately show ?thesis
    by (intro conjI)
qed

theorem analyze_current_screen_fallback_summary_witness:
  "\<exists>n m. dict_lookup
      (fst (analyze_current_screen
         (example_world\<lparr>generate_content :=
            (\<lambda>p img. case p of ElementsPrompt \<Rightarrow> Inr (Inr example_text)
                       | ContextPrompt u \<Rightarrow> Inl (Exn ExternalError ''429 quota exceeded''))\<rparr>)
         new_reader)) ''summary'' =
     Some (PDict [(''screen_type'', PStr ''unknown''), (''application'', PStr ''Unknown''),
                  (''context'', PStr ''Screen analysis''),
                  (''elements_found'', PInt n), (''commands_generated'', PInt m),
                  (''confidence'', PFloat (60 / 100))])"
proof -
  let ?w = "example_world\<lparr>generate_content :=
            (\<lambda>p img. case p of ElementsPrompt \<Rightarrow> Inr (Inr example_text)
                       | ContextPrompt u \<Rightarrow> Inl (Exn ExternalError ''429 quota exceeded''))\<rparr>"
  have a: "capture_screen ?w (custom_region new_reader) FULL_SCREEN = (Some 0, [Call CaptureScreen])"
    by (simp add: capture_screen_def and_then_def example_world_def)
  have b: "fst (preprocess_image ?w 0) = Inr 0"
    by (simp add: preprocess_image_def and_then_def example_world_def)
  have c: "imencode_b64 ?w 0 = Inr ''/9j/4AAQ''"
    by (simp add: example_world_def)
  have d: "interpretation_fails ?w ''/9j/4AAQ'' (PStr [])"
    by (simp add: interpretation_fails_def example_world_def)
  from analyze_current_screen_fallback_summary [OF a b c d, THEN conjunct2, THEN conjunct2]
  show ?thesis .
qed

section \<open>Properties of the HTTP routes\<close>

lemma handle_uninitialized_state:
  "handle w ep req sched None = Some (resp, sr, fx) \<Longrightarrow>
   sr = None \<or> (ep = Initialize \<and> snd resp = 200)"
  by (cases ep)
     (auto simp: initialize_screen_reader_def analyze_screen_detailed_def explain_screen_def
        start_monitoring_route_def stop_monitoring_route_def server_error_def
        split: sum.splits option.splits if_splits)

text \<open>
  C8. While the global reader is \<open>None\<close>, each of the routes that need it (detailed
  analysis, explanation, start and stop of the monitoring) answers with the JSON body
  \<^verbatim>\<open>{"error": "Screen reader not initialized"}\<close> and status 400, leaves the global as it
  is and has no other effect; none of them answers 500 or fails to answer.
\<close>

theorem routes_not_initialized:
  "\<forall>ep \<in> set analysis_endpoints.
     handle w ep req sched None =
       Some ((PDict [(''error'', PStr ''Screen reader not initialized'')], 400), None, [])"
  by (simp add: analysis_endpoints_def analyze_screen_detailed_def explain_screen_def
      start_monitoring_route_def stop_monitoring_route_def not_initialized_def)

theorem routes_not_initialized_witness:
  "handle example_world AnalyzeDetailed (Inr PNone) [] None =
     Some ((PDict [(''error'', PStr ''Screen reader not initialized'')], 400), None, [])"
proof -
  have "AnalyzeDetailed \<in> set analysis_endpoints"
    by (simp add: analysis_endpoints_def)
  with routes_not_initialized [of example_world "Inr PNone" "[]"] show ?thesis
    by (rule bspec)
qed

section \<open>Properties of the monitoring lifecycle\<close>




























end
